theory Spec2Isabelle
  imports Complex_Main
begin

section \<open>JavaScript numbers\<close>

text \<open>
  A JavaScript number is an IEEE 754 binary64 value.  The numbers of the mastery
  computation are modelled by the real numbers they denote, and each operation by its
  exact result rounded to binary64.
\<close>

text \<open>
  Rounding of a real number to an integer, to the nearest one and to the even one of the
  two when it lies half way between them: the rounding of IEEE 754 arithmetic.
\<close>

definition roundHalfEven :: "real \<Rightarrow> int" where
  "roundHalfEven r =
     (let f = \<lfloor>r\<rfloor>; d = r - of_int f in
      if d < 1/2 then f else if 1/2 < d then f + 1 else if even f then f else f + 1)"

text \<open>
  The binary exponent of a non-negative real \<open>x\<close>, searched downwards from \<open>k\<close>: the
  largest \<open>e \<le> k\<close> with \<open>2 ^ e \<le> x\<close>, and \<open>-1022\<close>, the least exponent of binary64,
  if there is none above it (zero and the subnormal numbers).
\<close>

function binaryExponent :: "real \<Rightarrow> int \<Rightarrow> int" where
  "binaryExponent x k =
     (if k \<le> -1022 \<or> 2 powi k \<le> x then k else binaryExponent x (k - 1))"
  by pat_completeness auto
termination
  by (relation "measure (\<lambda>(x, k). nat (k + 1022))") auto

declare binaryExponent.simps [simp del]

text \<open>
  The binary64 number nearest to a real number: 53 significant bits at the binary
  exponent of the number, hence a multiple of \<open>2 ^ (e - 52)\<close>.  Every arithmetic
  operation of JavaScript returns its exact result rounded this way, and a decimal
  literal denotes the rounding of its value.  Overflow to infinity is left out: nothing
  here reaches \<open>2 ^ 1024\<close>.
\<close>

definition roundToDouble :: "real \<Rightarrow> real" where
  "roundToDouble x =
     (let a = \<bar>x\<bar>; e = binaryExponent a 1023; ulp = 2 powi (e - 52)
      in sgn x * of_int (roundHalfEven (a / ulp)) * ulp)"

section \<open>Mastery classification (Kanji and Vocabulary card grids)\<close>

text \<open>
  The statistics store keeps, per item identifier, the all-time counters
  \<^verbatim>\<open>{correct, incorrect}\<close> in the object \<^verbatim>\<open>allTimeStats.characterMastery\<close>.
  \<^verbatim>\<open>Object.entries\<close> of that object is a list of (identifier, counters) pairs in which no
  identifier occurs twice.  A counter is a number that holds an integer; every integer
  of magnitude up to \<open>2 ^ 53\<close> is a binary64 number, and counting by one never leaves
  that range.
\<close>

record CharacterStats =
  correct :: int
  incorrect :: int

text \<open>\<^verbatim>\<open>const total = stats.correct + stats.incorrect;\<close>, a binary64 addition.\<close>

definition total :: "CharacterStats \<Rightarrow> real" where
  "total stats = roundToDouble (of_int (correct stats) + of_int (incorrect stats))"

text \<open>
  \<^verbatim>\<open>const accuracy = total > 0 ? stats.correct / total : 0;\<close>, a binary64 division under
  the guard.
\<close>

definition accuracy :: "CharacterStats \<Rightarrow> real" where
  "accuracy stats =
     (if total stats > 0 then roundToDouble (of_int (correct stats) / total stats) else 0)"

text \<open>
  The condition of the \<^verbatim>\<open>if\<close> in the loop body: \<^verbatim>\<open>total >= 10 && accuracy >= 0.9\<close>.
  The literal \<^verbatim>\<open>10\<close> is a binary64 number; the literal \<^verbatim>\<open>0.9\<close> denotes the binary64
  number nearest to nine tenths.
\<close>

definition meetsThreshold :: "CharacterStats \<Rightarrow> bool" where
  "meetsThreshold stats \<longleftrightarrow> total stats \<ge> 10 \<and> accuracy stats \<ge> roundToDouble 0.9"

text \<open>
  \<^verbatim>\<open>masteredCharacters\<close> (Kanji) and \<^verbatim>\<open>masteredWords\<close> (Vocabulary): a fresh set, one
  \<^verbatim>\<open>forEach\<close> over the entries, \<^verbatim>\<open>mastered.add\<close> under the condition.
\<close>

definition masteredCharacters :: "(string \<times> CharacterStats) list \<Rightarrow> string set" where
  "masteredCharacters characterMastery =
     fold (\<lambda>(char, stats) mastered.
             if meetsThreshold stats then insert char mastered else mastered)
          characterMastery {}"

definition masteredWords :: "(string \<times> CharacterStats) list \<Rightarrow> string set" where
  "masteredWords characterMastery =
     fold (\<lambda>(word, stats) mastered.
             if meetsThreshold stats then insert word mastered else mastered)
          characterMastery {}"

text \<open>
  \<^verbatim>\<open>Array.prototype.slice(start, end)\<close> for indices \<open>0 \<le> start\<close>, \<open>0 \<le> end\<close>: the
  elements at positions \<open>start \<le> i < end\<close> that exist; empty when \<open>end \<le> start\<close>.
\<close>

definition slice :: "'a list \<Rightarrow> nat \<Rightarrow> nat \<Rightarrow> 'a list" where
  "slice xs start end = take (end - start) (drop start xs)"



text \<open>
  Of a kanji object and of a vocabulary word only the identifier is read here
  (\<^verbatim>\<open>kanji.kanjiChar\<close>, \<^verbatim>\<open>vocab.word\<close>).  A collection that is not loaded yet is
  \<^verbatim>\<open>undefined\<close>, here \<open>None\<close>; a loaded one carries its \<^verbatim>\<open>data\<close> list.
\<close>

record KanjiObj =
  kanjiChar :: string
  meanings :: "string list"

record VocabObj =
  word :: string



section \<open>The adaptive selector, the random source and the direction controller\<close>

text \<open>
  The word-building games call three collaborators whose code is not part of the
  sources: the global adaptive selector (\<^verbatim>\<open>@/shared/lib/adaptiveSelection\<close>), the
  \<^verbatim>\<open>random-js\<close> engine and the hook \<^verbatim>\<open>useSmartReverseMode\<close>.  Their mutable state is
  passed explicitly: \<open>'s\<close> is the state of the selector, \<open>'r\<close> the state of the random
  engine, \<open>'c\<close> the state of the direction controller.  What they compute is a parameter
  of the game functions, except for the parts fixed below.
\<close>

datatype error = InvalidArgument

text \<open>Modelled from the spec: \<^verbatim>\<open>selectWeightedCharacter\<close> of the adaptive selector, whose
  source is missing.  On an empty candidate list it fails with \<open>InvalidArgument\<close>;
  otherwise it returns one identifier.  Which identifier, and how the selector state
  changes, is left to the parameter \<open>pick\<close>.
\<close>

definition selectWeightedCharacter ::
  "('s \<Rightarrow> string list \<Rightarrow> string \<times> 's) \<Rightarrow> 's \<Rightarrow> string list \<Rightarrow> error + (string \<times> 's)" where
  "selectWeightedCharacter pick st candidates =
     (if candidates = [] then Inl InvalidArgument else Inr (pick st candidates))"

text \<open>
  \<^verbatim>\<open>random.integer(min, max)\<close> of \<^verbatim>\<open>random-js\<close> returns an integer of the closed range
  \<open>[min, max]\<close>; which one depends on the engine.  The engine is the parameter
  \<open>nextRaw\<close>, which yields a raw natural number and the next engine state; the raw number
  is reduced into the range.
\<close>

definition randomInteger ::
  "('r \<Rightarrow> nat \<times> 'r) \<Rightarrow> 'r \<Rightarrow> nat \<Rightarrow> nat \<Rightarrow> nat \<times> 'r" where
  "randomInteger nextRaw rnd lo hi =
     (let (raw, rnd') = nextRaw rnd in (lo + raw mod (hi - lo + 1), rnd'))"

section \<open>The Kana word-building game\<close>

text \<open>
  A tile or an answer character is the result of a lookup in a \<^verbatim>\<open>Record<string, string>\<close>
  and may be \<^verbatim>\<open>undefined\<close>: it is a \<open>string option\<close>, with \<open>None\<close> for \<^verbatim>\<open>undefined\<close>.
  The field \<open>distractors\<close> keeps the local array of the same name of \<^verbatim>\<open>generateWord\<close>, which
  the source folds into \<open>allTiles\<close>.  A local variable named like a field carries a prime.
\<close>

record WordData =
  wordChars :: "string list"
  answerChars :: "string option list"
  distractors :: "string list"
  allTiles :: "string option list"

text \<open>
  The first loop of \<^verbatim>\<open>generateWord\<close>.  The first numeric argument counts the iterations
  that remain (\<open>wordLength - i\<close>):
  \<^verbatim>\<open>
  for (let i = 0; i < wordLength; i++) {
    const available = sourceChars.filter(c => !usedChars.has(c));
    if (available.length === 0) break;
    const selected = adaptiveSelector.selectWeightedCharacter(available);
    wordChars.push(selected);
    usedChars.add(selected);
    adaptiveSelector.markCharacterSeen(selected);
  }
  \<close>
\<close>

fun drawWordChars ::
  "('s \<Rightarrow> string list \<Rightarrow> string \<times> 's) \<Rightarrow> ('s \<Rightarrow> string \<Rightarrow> 's) \<Rightarrow> string list \<Rightarrow>
   nat \<Rightarrow> string list \<Rightarrow> string set \<Rightarrow> 's \<Rightarrow> error + (string list \<times> string set \<times> 's)" where
  "drawWordChars pick markCharacterSeen sourceChars 0 wordChars' usedChars st =
     Inr (wordChars', usedChars, st)"
| "drawWordChars pick markCharacterSeen sourceChars (Suc n) wordChars' usedChars st =
     (let available = filter (\<lambda>c. c \<notin> usedChars) sourceChars in
      if length available = 0 then Inr (wordChars', usedChars, st)
      else
        (case selectWeightedCharacter pick st available of
           Inl e \<Rightarrow> Inl e
         | Inr (selected, st') \<Rightarrow>
             drawWordChars pick markCharacterSeen sourceChars n
               (wordChars' @ [selected]) (insert selected usedChars)
               (markCharacterSeen st' selected)))"

text \<open>
  The second loop of \<^verbatim>\<open>generateWord\<close>, again with the remaining iterations as counter:
  \<^verbatim>\<open>
  for (let i = 0; i < distractorCount; i++) {
    const available = distractorSource.filter(
      c => !usedAnswers.has(c) && !distractors.includes(c));
    if (available.length === 0) break;
    const selected = available[random.integer(0, available.length - 1)];
    distractors.push(selected);
  }
  \<close>
\<close>

fun drawDistractors ::
  "('r \<Rightarrow> nat \<times> 'r) \<Rightarrow> string list \<Rightarrow> string option set \<Rightarrow>
   nat \<Rightarrow> string list \<Rightarrow> 'r \<Rightarrow> string list \<times> 'r" where
  "drawDistractors nextRaw distractorSource usedAnswers 0 distractors' rnd = (distractors', rnd)"
| "drawDistractors nextRaw distractorSource usedAnswers (Suc n) distractors' rnd =
     (let available =
            filter (\<lambda>c. Some c \<notin> usedAnswers \<and> c \<notin> set distractors') distractorSource in
      if length available = 0 then (distractors', rnd)
      else
        (let (i, rnd') = randomInteger nextRaw rnd 0 (length available - 1);
             selected = available ! i
         in drawDistractors nextRaw distractorSource usedAnswers n
              (distractors' @ [selected]) rnd'))"

text \<open>
  \<^verbatim>\<open>generateWord\<close>.  \<open>shuffle\<close> stands for \<^verbatim>\<open>.sort(() => random.real(0, 1) - 0.5)\<close>, whose
  result depends on the engine and on the sorting algorithm of the browser.  The selected
  kana and romaji lists and the two lookup tables are the memoised values of the
  component; \<open>wordLength\<close> is the (defaulted) property.
\<close>

definition generateWord ::
  "('s \<Rightarrow> string list \<Rightarrow> string \<times> 's) \<Rightarrow> ('s \<Rightarrow> string \<Rightarrow> 's) \<Rightarrow> ('r \<Rightarrow> nat \<times> 'r) \<Rightarrow>
   ('r \<Rightarrow> string option list \<Rightarrow> string option list \<times> 'r) \<Rightarrow>
   bool \<Rightarrow> string list \<Rightarrow> string list \<Rightarrow> (string \<rightharpoonup> string) \<Rightarrow> (string \<rightharpoonup> string) \<Rightarrow> nat \<Rightarrow>
   's \<Rightarrow> 'r \<Rightarrow> error + (WordData \<times> 's \<times> 'r)" where
  "generateWord pick markCharacterSeen nextRaw shuffle
                isReverse selectedKana selectedRomaji kanaToRomaji romajiToKana wordLength
                st rnd =
     (let sourceChars = (if isReverse then selectedRomaji else selectedKana) in
      if length sourceChars < wordLength then
        Inr (\<lparr>wordChars = [], answerChars = [], distractors = [], allTiles = []\<rparr>, st, rnd)
      else
        (case drawWordChars pick markCharacterSeen sourceChars wordLength [] {} st of
           Inl e \<Rightarrow> Inl e
         | Inr (wordChars', usedChars, st') \<Rightarrow>
             (let answerChars' = (if isReverse then map romajiToKana wordChars'
                                  else map kanaToRomaji wordChars');
                  distractorCount = min 3 (length sourceChars - wordLength);
                  distractorSource = (if isReverse then selectedKana else selectedRomaji);
                  usedAnswers = set answerChars';
                  (distractors', rnd1) =
                     drawDistractors nextRaw distractorSource usedAnswers distractorCount [] rnd;
                  (allTiles', rnd2) = shuffle rnd1 (answerChars' @ map Some distractors')
              in Inr (\<lparr>wordChars = wordChars', answerChars = answerChars',
                       distractors = distractors', allTiles = allTiles'\<rparr>, st', rnd2))))"

text \<open>
  \<^verbatim>\<open>const isReverse = externalIsReverse ?? internalIsReverse;\<close> where the property
  \<^verbatim>\<open>isReverse?: boolean\<close> is \<open>None\<close> when the caller does not supply it.
\<close>

definition effectiveIsReverse :: "bool option \<Rightarrow> bool \<Rightarrow> bool" where
  "effectiveIsReverse externalIsReverse internalIsReverse =
     (case externalIsReverse of Some b \<Rightarrow> b | None \<Rightarrow> internalIsReverse)"

datatype BottomBarState = Check | Correct | Wrong

text \<open>
  The state that \<^verbatim>\<open>handleCheck\<close> reads and writes: the session score of the statistics
  store, the React state of the component, the global selector and the state of the
  direction controller.  Sound, the stopwatch, and the counters of the statistics store
  other than the score are written only and are left out.
\<close>

record ('s, 'c) GameState =
  score :: int
  bottomBarState :: BottomBarState
  isChecking :: bool
  isCelebrating :: bool
  selector :: 's
  reverseMode :: 'c

text \<open>
  \<^verbatim>\<open>handleCheck\<close> of the Kana game.  \<open>updateCharacterWeight\<close> is the selector's operation,
  \<open>decideNextMode\<close> and \<open>recordWrongAnswer\<close> are the two transitions of the direction
  controller.
\<close>

definition handleCheck ::
  "('s \<Rightarrow> string \<Rightarrow> bool \<Rightarrow> 's) \<Rightarrow> ('c \<Rightarrow> 'c) \<Rightarrow> ('c \<Rightarrow> 'c) \<Rightarrow>
   bool option \<Rightarrow> string option list \<Rightarrow> WordData \<Rightarrow> ('s, 'c) GameState \<Rightarrow> ('s, 'c) GameState" where
  "handleCheck updateCharacterWeight decideNextMode recordWrongAnswer
               externalIsReverse placedTiles wordData g =
     (if length placedTiles = 0 then g
      else
        (let isCorrect = (length placedTiles = length (answerChars wordData) \<and>
                          list_all2 (=) placedTiles (answerChars wordData)) in
         if isCorrect then
           g\<lparr>isChecking := True,
             selector := fold (\<lambda>char st. updateCharacterWeight st char True)
                              (wordChars wordData) (selector g),
             score := score g + int (length (wordChars wordData)),
             bottomBarState := Correct,
             isCelebrating := True,
             reverseMode := (if externalIsReverse = None then decideNextMode (reverseMode g)
                             else reverseMode g)\<rparr>
         else
           g\<lparr>isChecking := True,
             selector := fold (\<lambda>char st. updateCharacterWeight st char False)
                              (wordChars wordData) (selector g),
             score := (if score g - 1 \<ge> 0 then score g - 1 else score g),
             bottomBarState := Wrong,
             reverseMode := (if externalIsReverse = None then recordWrongAnswer (reverseMode g)
                             else reverseMode g)\<rparr>))"

section \<open>The Kanji word-building game\<close>

record QuestionData =
  questionKanjiChar :: string
  correctAnswer :: "string option"
  questionTiles :: "string option list"
  displayChar :: "string option"

text \<open>\<^verbatim>\<open>obj.meanings[0]\<close>, which is \<^verbatim>\<open>undefined\<close> for an empty list of meanings.\<close>

definition firstMeaning :: "KanjiObj \<Rightarrow> string option" where
  "firstMeaning obj = (case meanings obj of [] \<Rightarrow> None | m # _ \<Rightarrow> Some m)"

text \<open>
  \<^verbatim>\<open>new Map(selectedKanjiObjs.map(obj => [obj.kanjiChar, obj]))\<close>: of two objects with
  the same character the later one stays.
\<close>

definition kanjiObjMap :: "KanjiObj list \<Rightarrow> (string \<rightharpoonup> KanjiObj)" where
  "kanjiObjMap selectedKanjiObjs = map_of (rev (map (\<lambda>obj. (kanjiChar obj, obj)) selectedKanjiObjs))"

text \<open>
  \<^verbatim>\<open>Math.min(externalDistractorCount, selectedKanjiObjs.length - 1)\<close>, a JavaScript number
  that is \<open>-1\<close> for the empty list.
\<close>

definition kanjiDistractorCount :: "nat \<Rightarrow> KanjiObj list \<Rightarrow> int" where
  "kanjiDistractorCount externalDistractorCount selectedKanjiObjs =
     min (int externalDistractorCount) (int (length selectedKanjiObjs) - 1)"

text \<open>
  \<^verbatim>\<open>generateQuestion\<close>.  The result of the early returns has the empty string as character
  and as answer and no \<^verbatim>\<open>displayChar\<close>.  \<^verbatim>\<open>slice(0, distractorCount)\<close> is reached only with
  a non-empty list of objects, where \<open>distractorCount \<ge> 0\<close>.
\<close>

definition generateQuestion ::
  "('s \<Rightarrow> string list \<Rightarrow> string \<times> 's) \<Rightarrow> ('s \<Rightarrow> string \<Rightarrow> 's) \<Rightarrow>
   ('r \<Rightarrow> string option list \<Rightarrow> string option list \<times> 'r) \<Rightarrow>
   bool \<Rightarrow> KanjiObj list \<Rightarrow> nat \<Rightarrow> 's \<Rightarrow> 'r \<Rightarrow> error + (QuestionData \<times> 's \<times> 'r)" where
  "generateQuestion pick markCharacterSeen shuffle
                    isReverse selectedKanjiObjs externalDistractorCount st rnd =
     (if length selectedKanjiObjs = 0 then
        Inr (\<lparr>questionKanjiChar = [], correctAnswer = Some [], questionTiles = [],
              displayChar = None\<rparr>, st, rnd)
      else
        (let kanjiChars = map kanjiChar selectedKanjiObjs in
         case selectWeightedCharacter pick st kanjiChars of
           Inl e \<Rightarrow> Inl e
         | Inr (selectedKanji, st1) \<Rightarrow>
             (let st2 = markCharacterSeen st1 selectedKanji in
              case kanjiObjMap selectedKanjiObjs selectedKanji of
                None \<Rightarrow>
                  Inr (\<lparr>questionKanjiChar = [], correctAnswer = Some [], questionTiles = [],
                        displayChar = None\<rparr>, st2, rnd)
              | Some selectedKanjiObj \<Rightarrow>
                  (let answer = (if isReverse then Some selectedKanji
                                 else firstMeaning selectedKanjiObj);
                       others = filter (\<lambda>obj. kanjiChar obj \<noteq> selectedKanji) selectedKanjiObjs;
                       distractorSource = (if isReverse then map (\<lambda>obj. Some (kanjiChar obj)) others
                                           else map firstMeaning others);
                       (sorted, rnd1) = shuffle rnd distractorSource;
                       distractorCount =
                         nat (kanjiDistractorCount externalDistractorCount selectedKanjiObjs);
                       kanjiDistractors = slice sorted 0 distractorCount;
                       (tiles, rnd2) = shuffle rnd1 (answer # kanjiDistractors)
                   in Inr (\<lparr>questionKanjiChar = selectedKanji, correctAnswer = answer,
                            questionTiles = tiles,
                            displayChar = (if isReverse then firstMeaning selectedKanjiObj
                                           else Some selectedKanji)\<rparr>, st2, rnd2)))))"

text \<open>\<^verbatim>\<open>handleCheck\<close> of the Kanji game: one tile is the whole answer.\<close>

definition handleCheckKanji ::
  "('s \<Rightarrow> string \<Rightarrow> bool \<Rightarrow> 's) \<Rightarrow> ('c \<Rightarrow> 'c) \<Rightarrow> ('c \<Rightarrow> 'c) \<Rightarrow>
   bool option \<Rightarrow> string option list \<Rightarrow> QuestionData \<Rightarrow> ('s, 'c) GameState \<Rightarrow> ('s, 'c) GameState" where
  "handleCheckKanji updateCharacterWeight decideNextMode recordWrongAnswer
                    externalIsReverse placedTiles questionData g =
     (if length placedTiles = 0 then g
      else
        (let isCorrect = (length placedTiles = 1 \<and>
                          hd placedTiles = correctAnswer questionData) in
         if isCorrect then
           g\<lparr>isChecking := True,
             selector := updateCharacterWeight (selector g) (questionKanjiChar questionData) True,
             score := score g + 1,
             bottomBarState := Correct,
             isCelebrating := True,
             reverseMode := (if externalIsReverse = None then decideNextMode (reverseMode g)
                             else reverseMode g)\<rparr>
         else
           g\<lparr>isChecking := True,
             selector := updateCharacterWeight (selector g) (questionKanjiChar questionData) False,
             score := (if score g - 1 \<ge> 0 then score g - 1 else score g),
             bottomBarState := Wrong,
             reverseMode := (if externalIsReverse = None then recordWrongAnswer (reverseMode g)
                             else reverseMode g)\<rparr>))"

section \<open>The adaptive selector as the spec describes it\<close>

text \<open>Modelled from the spec: the tunable constants of the adaptive selector, whose source
  (\<^verbatim>\<open>@/shared/lib/adaptiveSelection\<close>) is missing.  On an incorrect outcome the weight
  grows by "a fixed multiplicative or additive boost".
\<close>

datatype Boost = Multiplicative real | Additive real

text \<open>Modelled from the spec: the configuration constants \<open>W_min\<close>, \<open>W_max\<close>, the neutral
  default weight, the boost and the decay factor.  The spec leaves their values open.
\<close>

record SelectorConfig =
  W_min :: real
  W_max :: real
  neutralWeight :: real
  boost :: Boost
  decayFactor :: real

text \<open>Modelled from the spec: what the spec requires of the constants: \<open>W_min > 0\<close>, the
  neutral weight within \<open>[W_min, W_max]\<close>, a boost that increases and a decay factor
  that decreases a positive weight.
\<close>

definition validConfig :: "SelectorConfig \<Rightarrow> bool" where
  "validConfig cfg \<longleftrightarrow>
     0 < W_min cfg \<and> W_min cfg \<le> neutralWeight cfg \<and> neutralWeight cfg \<le> W_max cfg \<and>
     (case boost cfg of Multiplicative k \<Rightarrow> 1 < k | Additive d \<Rightarrow> 0 < d) \<and>
     0 < decayFactor cfg \<and> decayFactor cfg < 1"

text \<open>Modelled from the spec: \<^verbatim>\<open>ItemStat\<close>, one per item identifier, created lazily.  The
  counters are named \<open>itemCorrect\<close> and \<open>itemIncorrect\<close> here, the names \<open>correct\<close> and
  \<open>incorrect\<close> being those of the ledger above.
\<close>

record ItemStat =
  itemCorrect :: nat
  itemIncorrect :: nat
  weight :: real
  lastSeenAt :: nat

text \<open>Modelled from the spec: \<^verbatim>\<open>SelectionState\<close>, the mapping from identifiers to their
  \<^verbatim>\<open>ItemStat\<close>, with a counter for recency.
\<close>

record SelectionState =
  items :: "string \<rightharpoonup> ItemStat"
  clock :: nat

text \<open>Modelled from the spec: the accessor "that returns the neutral default for unseen keys".
\<close>

definition itemStat :: "SelectorConfig \<Rightarrow> SelectionState \<Rightarrow> string \<Rightarrow> ItemStat" where
  "itemStat cfg st c =
     (case items st c of
        None \<Rightarrow> \<lparr>itemCorrect = 0, itemIncorrect = 0, weight = neutralWeight cfg, lastSeenAt = 0\<rparr>
      | Some it \<Rightarrow> it)"

text \<open>Modelled from the spec: the current weight of an identifier, "defaulted to the neutral
  weight if unseen".
\<close>

definition weightOf :: "SelectorConfig \<Rightarrow> SelectionState \<Rightarrow> string \<Rightarrow> real" where
  "weightOf cfg st c = weight (itemStat cfg st c)"

text \<open>Modelled from the spec: the weight is "clamped to \<open>[W_min, W_max]\<close>".
\<close>

definition clampWeight :: "SelectorConfig \<Rightarrow> real \<Rightarrow> real" where
  "clampWeight cfg w = max (W_min cfg) (min (W_max cfg) w)"

text \<open>Modelled from the spec: the boost applied on an incorrect outcome.
\<close>

fun applyBoost :: "Boost \<Rightarrow> real \<Rightarrow> real" where
  "applyBoost (Multiplicative k) w = w * k"
| "applyBoost (Additive d) w = w + d"

text \<open>Modelled from the spec: \<^verbatim>\<open>updateCharacterWeight(id, wasCorrect)\<close>: "on incorrect,
  increase weight by a fixed multiplicative or additive boost (bounded at \<open>W_max\<close>); on
  correct, decrease weight by a fixed decay factor (bounded at \<open>W_min\<close>)"; the outcome is
  counted.
\<close>

definition updateCharacterWeight ::
  "SelectorConfig \<Rightarrow> SelectionState \<Rightarrow> string \<Rightarrow> bool \<Rightarrow> SelectionState" where
  "updateCharacterWeight cfg st c wasCorrect =
     (let it = itemStat cfg st c;
          it' = (if wasCorrect
                 then it\<lparr>itemCorrect := itemCorrect it + 1,
                         weight := clampWeight cfg (weight it * decayFactor cfg)\<rparr>
                 else it\<lparr>itemIncorrect := itemIncorrect it + 1,
                         weight := clampWeight cfg (applyBoost (boost cfg) (weight it))\<rparr>)
      in st\<lparr>items := (items st)(c \<mapsto> it')\<rparr>)"

text \<open>Modelled from the spec: \<^verbatim>\<open>markCharacterSeen(id)\<close> "records recency" and leaves the
  counters and the weight as they are.
\<close>

definition markCharacterSeen :: "SelectorConfig \<Rightarrow> SelectionState \<Rightarrow> string \<Rightarrow> SelectionState" where
  "markCharacterSeen cfg st c =
     st\<lparr>items := (items st)(c \<mapsto> (itemStat cfg st c)\<lparr>lastSeenAt := clock st\<rparr>),
        clock := clock st + 1\<rparr>"

text \<open>Modelled from the spec: the walk over the cumulative weights: the first candidate whose
  cumulative weight exceeds the target \<open>t\<close>, and \<open>fallback\<close> when there is none.
\<close>

fun pickCumulative :: "(string \<times> real) list \<Rightarrow> real \<Rightarrow> string \<Rightarrow> string" where
  "pickCumulative [] t fallback = fallback"
| "pickCumulative ((c, w) # rest) t fallback =
     (if t < w then c else pickCumulative rest (t - w) fallback)"

text \<open>Modelled from the spec: the choice of \<^verbatim>\<open>selectWeightedCharacter\<close> among non-empty
  candidates, "selection probability proportional to the current weight", from a draw
  \<open>u\<close> of the injected random source (uniform in \<open>[0, 1)\<close>); a total weight of zero
  "resolves to the uniform fallback distribution".  The selector state is only read.
\<close>

definition weightedPick ::
  "SelectorConfig \<Rightarrow> real \<Rightarrow> SelectionState \<Rightarrow> string list \<Rightarrow> string \<times> SelectionState" where
  "weightedPick cfg u st candidates =
     (let weights = map (weightOf cfg st) candidates;
          totalWeight = sum_list weights
      in if totalWeight \<le> 0
         then (candidates ! min (length candidates - 1) (nat \<lfloor>u * real (length candidates)\<rfloor>), st)
         else (pickCumulative (zip candidates weights) (u * totalWeight) (last candidates), st))"

text \<open>Modelled from the spec: \<open>n\<close> calls of \<^verbatim>\<open>updateCharacterWeight\<close> in a row for the same
  identifier with the same outcome.
\<close>

definition repeatOutcome ::
  "SelectorConfig \<Rightarrow> string \<Rightarrow> bool \<Rightarrow> nat \<Rightarrow> SelectionState \<Rightarrow> SelectionState" where
  "repeatOutcome cfg c wasCorrect n st = ((\<lambda>s. updateCharacterWeight cfg s c wasCorrect) ^^ n) st"

text \<open>
  One admissible choice of the constants, for evaluating the selector.
\<close>

definition exampleConfig :: SelectorConfig where
  "exampleConfig = \<lparr>W_min = 1/10, W_max = 10, neutralWeight = 1,
                    boost = Multiplicative 2, decayFactor = 1/2\<rparr>"

section \<open>Properties of the rounding to binary64\<close>

lemma roundHalfEven_of_int: "roundHalfEven (of_int n) = n"
  by (simp add: roundHalfEven_def)

lemma roundHalfEven_near:
  assumes "of_int M - 1/2 < r" "r < of_int M + 1/2"
  shows "roundHalfEven r = M"
proof -
  define f where "f = \<lfloor>r\<rfloor>"
  have fl: "of_int f \<le> r" "r < of_int f + 1"
    unfolding f_def by linarith+
  have "f = M \<or> f = M - 1"
    using assms fl by linarith
  then show ?thesis
  proof
    assume "f = M"
    with assms fl show ?thesis
      unfolding roundHalfEven_def Let_def f_def [symmetric] by simp
  next
    assume "f = M - 1"
    with assms fl show ?thesis
      unfolding roundHalfEven_def Let_def f_def [symmetric] by simp
  qed
qed

lemma roundHalfEven_le:
  assumes "r \<le> of_int n"
  shows "roundHalfEven r \<le> n"
proof -
  define f where "f = \<lfloor>r\<rfloor>"
  have fl: "of_int f \<le> r" "r < of_int f + 1"
    unfolding f_def by linarith+
  have "f \<le> n" using assms fl by linarith
  moreover have "f = n \<Longrightarrow> r - of_int f = 0" using assms fl by linarith
  ultimately show ?thesis
    unfolding roundHalfEven_def Let_def f_def [symmetric]
    by (cases "f = n") auto
qed

lemma roundHalfEven_ge:
  assumes "of_int n \<le> r"
  shows "n \<le> roundHalfEven r"
proof -
  define f where "f = \<lfloor>r\<rfloor>"
  have fl: "of_int f \<le> r" "r < of_int f + 1"
    unfolding f_def by linarith+
  have "n \<le> f" using assms fl by linarith
  then show ?thesis
    unfolding roundHalfEven_def Let_def f_def [symmetric] by auto
qed

lemma roundHalfEven_ge_odd:
  assumes "odd M"
  shows "M \<le> roundHalfEven r \<longleftrightarrow> of_int M - 1/2 < r"
proof -
  define f where "f = \<lfloor>r\<rfloor>"
  define d where "d = r - of_int f"
  have fl: "0 \<le> d" "d < 1" "r = of_int f + d"
    unfolding d_def f_def by linarith+
  consider (lo) "d < 1/2" | (hi) "1/2 < d" | (tie) "d = 1/2" by linarith
  then show ?thesis
  proof cases
    case lo
    then have "roundHalfEven r = f"
      unfolding roundHalfEven_def Let_def f_def [symmetric] d_def [symmetric] by simp
    moreover have "M \<le> f \<longleftrightarrow> of_int M - 1/2 < r"
      using lo fl by linarith
    ultimately show ?thesis by simp
  next
    case hi
    then have "roundHalfEven r = f + 1"
      unfolding roundHalfEven_def Let_def f_def [symmetric] d_def [symmetric] by simp
    moreover have "M \<le> f + 1 \<longleftrightarrow> of_int M - 1/2 < r"
      using hi fl by linarith
    ultimately show ?thesis by simp
  next
    case tie
    show ?thesis
    proof (cases "even f")
      case True
      then have "roundHalfEven r = f"
        using tie unfolding roundHalfEven_def Let_def f_def [symmetric] d_def [symmetric] by simp
      moreover have "M \<le> f \<longleftrightarrow> of_int M - 1/2 < r"
        using tie fl by linarith
      ultimately show ?thesis by simp
    next
      case False
      then have "roundHalfEven r = f + 1"
        using tie unfolding roundHalfEven_def Let_def f_def [symmetric] d_def [symmetric] by simp
      moreover have "f \<noteq> M - 1"
        using False assms by auto
      then have "M \<le> f + 1 \<longleftrightarrow> of_int M - 1/2 < r"
        using tie fl by linarith
      ultimately show ?thesis by simp
    qed
  qed
qed

lemma binaryExponent_below:
  "- 1022 \<le> k \<Longrightarrow> x < 2 powi (k + 1) \<Longrightarrow>
     - 1022 \<le> binaryExponent x k \<and> binaryExponent x k \<le> k \<and>
     x < 2 powi (binaryExponent x k + 1) \<and>
     (binaryExponent x k = - 1022 \<or> 2 powi binaryExponent x k \<le> x)"
proof (induction x k rule: binaryExponent.induct)
  case (1 x k)
  show ?case
  proof (cases "k \<le> -1022 \<or> 2 powi k \<le> x")
    case True
    then have "binaryExponent x k = k"
      by (subst binaryExponent.simps) simp
    with True "1.prems" show ?thesis by auto
  next
    case False
    then have eq: "binaryExponent x k = binaryExponent x (k - 1)"
      by (subst binaryExponent.simps) simp
    have "- 1022 \<le> k - 1" "x < 2 powi (k - 1 + 1)"
      using False by auto
    from "1.IH" [OF False this] show ?thesis
      unfolding eq by auto
  qed
qed

lemma binaryExponent_above:
  "- 1022 \<le> j \<Longrightarrow> j \<le> k \<Longrightarrow> 2 powi j \<le> x \<Longrightarrow>
     j \<le> binaryExponent x k \<and> 2 powi binaryExponent x k \<le> x"
proof (induction x k rule: binaryExponent.induct)
  case (1 x k)
  show ?case
  proof (cases "2 powi k \<le> x")
    case True
    then have "binaryExponent x k = k"
      by (subst binaryExponent.simps) simp
    with True "1.prems" show ?thesis by auto
  next
    case False
    have "j \<noteq> k" using False "1.prems" by auto
    then have jk: "j \<le> k - 1" "\<not> (k \<le> - 1022 \<or> 2 powi k \<le> x)"
      using "1.prems" False by auto
    then have eq: "binaryExponent x k = binaryExponent x (k - 1)"
      by (subst binaryExponent.simps) simp
    from "1.IH" [OF jk(2) "1.prems"(1) jk(1) "1.prems"(3)] show ?thesis
      unfolding eq by auto
  qed
qed

lemma ulp_times:
  "2 powi (e - 52) * 9007199254740992 = (2::real) powi (e + 1)"
  "2 powi (e - 52) * 4503599627370496 = (2::real) powi e"
proof -
  have "(2::real) powi (e - 52) * 2 powi 53 = 2 powi (e - 52 + 53)"
    by (subst power_int_add) simp_all
  moreover have "e - 52 + 53 = e + 1" by simp
  ultimately show "2 powi (e - 52) * 9007199254740992 = (2::real) powi (e + 1)"
    by (simp del: power_int_add_numeral power_int_add_numeral2)
  have "(2::real) powi (e - 52) * 2 powi 52 = 2 powi (e - 52 + 52)"
    by (subst power_int_add) simp_all
  then show "2 powi (e - 52) * 4503599627370496 = (2::real) powi e"
    by simp
qed

lemma roundToDouble_zero: "roundToDouble 0 = 0"
  by (simp add: roundToDouble_def)

lemma roundToDouble_pos:
  "0 < x \<Longrightarrow>
     roundToDouble x =
       of_int (roundHalfEven (x / 2 powi (binaryExponent x 1023 - 52)))
         * 2 powi (binaryExponent x 1023 - 52)"
  by (simp add: roundToDouble_def Let_def)


lemma roundToDouble_small:
  assumes "0 \<le> x" "x < 1/2"
  shows "roundToDouble x \<le> 1/2"
proof (cases "x = 0")
  case True
  then show ?thesis by (simp add: roundToDouble_zero)
next
  case False
  with assms have pos: "0 < x" by simp
  define e where "e = binaryExponent x 1023"
  define u :: real where "u = 2 powi (e - 52)"
  have u: "0 < u" unfolding u_def by simp
  have "x < 2 powi (1023 + 1)" using assms by simp
  from binaryExponent_below [OF _ this]
  have up: "x < 2 powi (e + 1)" and lo: "e = - 1022 \<or> 2 powi e \<le> x"
    unfolding e_def by simp_all
  have e2: "e \<le> - 2"
  proof (rule ccontr)
    assume "\<not> e \<le> - 2"
    then have ge: "- 1 \<le> e" by simp
    then have "(2::real) powi (- 1) \<le> 2 powi e"
      by (intro power_int_increasing) simp_all
    moreover have "2 powi e \<le> x" using lo ge by auto
    ultimately show False using assms by simp
  qed
  have top: "u * 9007199254740992 = 2 powi (e + 1)"
    unfolding u_def by (rule ulp_times(1))
  have "x < u * 9007199254740992" using up top by simp
  then have "x / u < 9007199254740992"
    using u by (simp add: pos_divide_less_eq mult.commute)
  then have "x / u \<le> of_int 9007199254740992" by simp
  then have "roundHalfEven (x / u) \<le> 9007199254740992"
    by (rule roundHalfEven_le)
  then have "(of_int (roundHalfEven (x / u)) :: real) \<le> of_int 9007199254740992"
    by (simp only: of_int_le_iff)
  then have "of_int (roundHalfEven (x / u)) * u \<le> of_int 9007199254740992 * u"
    using u by (simp only: mult_le_cancel_right_pos)
  also have "\<dots> = 2 powi (e + 1)"
    using top by (simp add: mult.commute)
  also have "\<dots> \<le> 2 powi (- 1)"
    using e2 by (intro power_int_increasing) simp_all
  finally have "of_int (roundHalfEven (x / u)) * u \<le> 1/2"
    by simp
  then show ?thesis
    unfolding roundToDouble_pos [OF pos] u_def e_def .
qed

lemma roundToDouble_large:
  assumes "1 \<le> x"
  shows "1 \<le> roundToDouble x"
proof -
  have pos: "0 < x" using assms by simp
  define e where "e = binaryExponent x 1023"
  define u :: real where "u = 2 powi (e - 52)"
  have u: "0 < u" unfolding u_def by simp
  have "(2::real) powi 0 \<le> x" using assms by simp
  from binaryExponent_above [OF _ _ this, of 1023]
  have e0: "0 \<le> e" and lo: "2 powi e \<le> x"
    unfolding e_def by simp_all
  have bot: "u * 4503599627370496 = 2 powi e"
    unfolding u_def by (rule ulp_times(2))
  have "u * 4503599627370496 \<le> x" using lo bot by simp
  then have "of_int 4503599627370496 \<le> x / u"
    using u by (simp add: pos_le_divide_eq mult.commute)
  then have "4503599627370496 \<le> roundHalfEven (x / u)"
    by (rule roundHalfEven_ge)
  then have "(of_int 4503599627370496 :: real) \<le> of_int (roundHalfEven (x / u))"
    by (simp only: of_int_le_iff)
  then have "of_int 4503599627370496 * u \<le> of_int (roundHalfEven (x / u)) * u"
    using u by (simp only: mult_le_cancel_right_pos)
  moreover have "of_int 4503599627370496 * u = 2 powi e"
    using bot by (simp add: mult.commute)
  moreover have "(2::real) powi 0 \<le> 2 powi e"
    using e0 by (intro power_int_increasing) simp_all
  ultimately have "1 \<le> of_int (roundHalfEven (x / u)) * u"
    by simp
  then show ?thesis
    unfolding roundToDouble_pos [OF pos] u_def e_def .
qed

lemma binaryExponent_half:
  assumes "1/2 \<le> x" "x < 1"
  shows "binaryExponent x 1023 = - 1"
proof -
  define e where "e = binaryExponent x 1023"
  have "(2::real) powi (- 1) \<le> x" using assms by simp
  from binaryExponent_above [OF _ _ this, of 1023]
  have e1: "- 1 \<le> e" and lo: "2 powi e \<le> x"
    unfolding e_def by simp_all
  have "e < 0"
  proof (rule ccontr)
    assume "\<not> e < 0"
    then have "(2::real) powi 0 \<le> 2 powi e"
      by (intro power_int_increasing) simp_all
    with lo assms show False by simp
  qed
  with e1 show ?thesis unfolding e_def by simp
qed

lemma roundToDouble_half:
  assumes "1/2 \<le> x" "x < 1"
  shows "roundToDouble x = of_int (roundHalfEven (x * 9007199254740992)) / 9007199254740992"
proof -
  have pos: "0 < x" using assms by simp
  have u: "(2::real) powi (- 1 - 52) = 1 / 9007199254740992"
    by simp
  show ?thesis
    unfolding roundToDouble_pos [OF pos] binaryExponent_half [OF assms] u by simp
qed

lemma roundToDouble_of_int:
  assumes "0 \<le> n" "n < 9007199254740992"
  shows "roundToDouble (of_int n) = of_int n"
proof (cases "n = 0")
  case True
  then show ?thesis by (simp add: roundToDouble_zero)
next
  case False
  with assms have pos: "1 \<le> n" by simp
  then have rpos: "0 < (of_int n :: real)" by simp
  define e where "e = binaryExponent (of_int n) 1023"
  have "(2::real) powi 0 \<le> of_int n" using pos by simp
  from binaryExponent_above [OF _ _ this, of 1023]
  have e0: "0 \<le> e" and lo: "2 powi e \<le> (of_int n :: real)"
    unfolding e_def by simp_all
  have e52: "e \<le> 52"
  proof (rule ccontr)
    assume "\<not> e \<le> 52"
    then have "(2::real) powi 53 \<le> 2 powi e"
      by (intro power_int_increasing) simp_all
    with lo have "(of_int 9007199254740992 :: real) \<le> of_int n" by simp
    then have "9007199254740992 \<le> n" by (simp only: of_int_le_iff)
    with assms show False by simp
  qed
  define p where "p = nat (52 - e)"
  have ep: "e - 52 = - int p" using e52 unfolding p_def by simp
  have ulp: "(2::real) powi (e - 52) = inverse (2 ^ p)"
    unfolding ep by (simp add: power_int_minus)
  have "of_int n / (2::real) powi (e - 52) = of_int (n * 2 ^ p)"
    unfolding ulp by (simp add: divide_inverse)
  then have "roundHalfEven (of_int n / (2::real) powi (e - 52)) = n * 2 ^ p"
    by (simp only: roundHalfEven_of_int)
  then have "of_int (roundHalfEven (of_int n / (2::real) powi (e - 52))) * (2::real) powi (e - 52)
               = of_int n"
    unfolding ulp by simp
  then show ?thesis
    unfolding roundToDouble_pos [OF rpos] e_def .
qed

lemma literal_09: "roundToDouble (9/10) = 8106479329266893 / 9007199254740992"
proof -
  have "roundHalfEven (9/10 * 9007199254740992) = 8106479329266893"
    by (rule roundHalfEven_near) simp_all
  then show ?thesis
    by (simp add: roundToDouble_half)
qed

lemma roundToDouble_ge_literal:
  assumes "0 \<le> x" "x \<le> 1"
  shows "roundToDouble (9/10) \<le> roundToDouble x
           \<longleftrightarrow> 16212958658533785 / 18014398509481984 < x"
proof -
  consider (small) "x < 1/2" | (half) "1/2 \<le> x" "x < 1" | (one) "x = 1"
    using assms by linarith
  then show ?thesis
  proof cases
    case small
    from roundToDouble_small [OF assms(1) small] small show ?thesis
      by (simp add: literal_09)
  next
    case half
    define m where "m = roundHalfEven (x * 9007199254740992)"
    have "(8106479329266893 \<le> m) \<longleftrightarrow> of_int 8106479329266893 - 1/2 < x * 9007199254740992"
      unfolding m_def by (rule roundHalfEven_ge_odd) simp
    moreover have "(8106479329266893 / 9007199254740992 \<le> (of_int m :: real) / 9007199254740992)
            \<longleftrightarrow> 8106479329266893 \<le> m"
      by (simp add: divide_le_cancel)
    moreover have "(of_int 8106479329266893 - 1/2 < x * 9007199254740992)
            \<longleftrightarrow> 16212958658533785 / 18014398509481984 < x"
      by (simp add: field_simps)
    ultimately show ?thesis
      unfolding literal_09 roundToDouble_half [OF half] m_def [symmetric] by simp
  next
    case one
    from roundToDouble_large [of x] one show ?thesis
      by (simp add: literal_09)
  qed
qed


section \<open>Properties of the mastery classification\<close>

lemma fold_mastered_mem:
  "c \<in> fold (\<lambda>(k, stats) mastered.
               if meetsThreshold stats then insert k mastered else mastered) entries acc
   \<longleftrightarrow> c \<in> acc \<or> (\<exists>stats. (c, stats) \<in> set entries \<and> meetsThreshold stats)"
  by (induction entries arbitrary: acc) (auto split: if_splits)

lemma masteredCharacters_mem:
  "c \<in> masteredCharacters entries
   \<longleftrightarrow> (\<exists>stats. (c, stats) \<in> set entries \<and> meetsThreshold stats)"
  unfolding masteredCharacters_def by (simp add: fold_mastered_mem)

lemma masteredWords_mem:
  "c \<in> masteredWords entries
   \<longleftrightarrow> (\<exists>stats. (c, stats) \<in> set entries \<and> meetsThreshold stats)"
  unfolding masteredWords_def by (simp add: fold_mastered_mem)



lemma total_exact:
  assumes "0 \<le> correct stats + incorrect stats" "correct stats + incorrect stats < 9007199254740992"
  shows "total stats = of_int (correct stats + incorrect stats)"
proof -
  have "total stats = roundToDouble (of_int (correct stats + incorrect stats))"
    by (simp add: total_def)
  then show ?thesis
    using roundToDouble_of_int [OF assms] by simp
qed

lemma meetsThreshold_exact:
  assumes "0 \<le> correct stats" "0 \<le> incorrect stats"
      and "correct stats + incorrect stats < 9007199254740992"
  shows "meetsThreshold stats \<longleftrightarrow>
           10 \<le> correct stats + incorrect stats \<and>
           16212958658533785 * (correct stats + incorrect stats)
             < 18014398509481984 * correct stats"
proof -
  define c where "c = correct stats"
  define t where "t = correct stats + incorrect stats"
  have ct: "0 \<le> c" "c \<le> t" "t < 9007199254740992"
    using assms unfolding c_def t_def by simp_all
  have tot: "total stats = of_int t"
    unfolding t_def using total_exact [of stats] assms by simp
  have main: "meetsThreshold stats \<longleftrightarrow>
                10 \<le> t \<and> 16212958658533785 * t < 18014398509481984 * c"
  proof (cases "0 < t")
    case False
    with ct have "t = 0" by simp
    then show ?thesis
      by (simp add: meetsThreshold_def tot)
  next
    case True
    then have rt: "0 < (of_int t :: real)" by simp
    have x: "0 \<le> (of_int c :: real) / of_int t" "(of_int c :: real) / of_int t \<le> 1"
      using ct True by simp_all
    have acc: "accuracy stats = roundToDouble (of_int c / of_int t)"
      using rt by (simp add: accuracy_def tot c_def)
    have "(16212958658533785 / 18014398509481984 < (of_int c :: real) / of_int t)
            \<longleftrightarrow> (of_int (16212958658533785 * t) :: real) < of_int (18014398509481984 * c)"
      using rt by (simp add: field_simps)
    also have "\<dots> \<longleftrightarrow> 16212958658533785 * t < 18014398509481984 * c"
      by (simp only: of_int_less_iff)
    finally have q: "(16212958658533785 / 18014398509481984 < (of_int c :: real) / of_int t)
            \<longleftrightarrow> 16212958658533785 * t < 18014398509481984 * c" .
    have "(10 \<le> (of_int t :: real)) \<longleftrightarrow> 10 \<le> t" by linarith
    then show ?thesis
      unfolding meetsThreshold_def tot acc
      using roundToDouble_ge_literal [OF x] q by simp
  qed
  then show ?thesis
    unfolding c_def t_def .
qed

lemma meetsThreshold_small:
  assumes "0 \<le> correct stats" "0 \<le> incorrect stats"
      and "correct stats + incorrect stats \<le> 3 * 10 ^ 15"
  shows "meetsThreshold stats \<longleftrightarrow>
           10 \<le> correct stats + incorrect stats \<and>
           9 * (correct stats + incorrect stats) \<le> 10 * correct stats"
proof -
  have "correct stats + incorrect stats < 9007199254740992"
    using assms(3) by simp
  from meetsThreshold_exact [OF assms(1,2) this] assms show ?thesis
    by simp linarith
qed

lemma meetsThreshold_iff:
  assumes "0 \<le> correct stats" "0 \<le> incorrect stats"
      and "correct stats + incorrect stats \<le> 3 * 10 ^ 15"
  shows "meetsThreshold stats \<longleftrightarrow>
     correct stats + incorrect stats \<ge> 10 \<and>
     real_of_int (correct stats) / real_of_int (correct stats + incorrect stats) \<ge> 9 / 10"
proof (cases "10 \<le> correct stats + incorrect stats")
  case False
  then show ?thesis using meetsThreshold_small [OF assms] by simp
next
  case True
  then have "0 < real_of_int (correct stats + incorrect stats)" by simp
  then have "(9 / 10 \<le> real_of_int (correct stats) / real_of_int (correct stats + incorrect stats))
               \<longleftrightarrow> real_of_int (9 * (correct stats + incorrect stats))
                     \<le> real_of_int (10 * correct stats)"
    by (simp add: field_simps)
  also have "\<dots> \<longleftrightarrow> 9 * (correct stats + incorrect stats) \<le> 10 * correct stats"
    by (simp only: of_int_le_iff)
  finally show ?thesis
    using meetsThreshold_small [OF assms] True by simp
qed

lemma distinct_keys_unique:
  "distinct (map fst entries) \<Longrightarrow> (c, s) \<in> set entries \<Longrightarrow> (c, s') \<in> set entries \<Longrightarrow> s = s'"
  by (meson eq_key_imp_eq_value)

section \<open>Properties of the two loops of the word generator\<close>

lemma drawWordChars_no_error:
  "\<exists>w u s. drawWordChars pick mark src n wc uc st = Inr (w, u, s)"
proof (induction n arbitrary: wc uc st)
  case 0
  show ?case by simp
next
  case (Suc n)
  show ?case
  proof (cases "filter (\<lambda>c. c \<notin> uc) src = []")
    case True
    then show ?thesis by simp
  next
    case False
    obtain c st' where p: "pick st (filter (\<lambda>c. c \<notin> uc) src) = (c, st')"
      by (cases "pick st (filter (\<lambda>c. c \<notin> uc) src)") auto
    from False p Suc.IH [of "wc @ [c]" "insert c uc" "mark st' c"]
    show ?thesis by (simp add: selectWeightedCharacter_def)
  qed
qed

lemma drawWordChars_distinct:
  assumes mem: "\<And>st xs. xs \<noteq> [] \<Longrightarrow> fst (pick st xs) \<in> set xs"
  shows "drawWordChars pick mark src n wc uc st = Inr (w, u, s) \<Longrightarrow>
         distinct wc \<Longrightarrow> uc = set wc \<Longrightarrow> distinct w \<and> u = set w"
proof (induction n arbitrary: wc uc st)
  case 0
  then show ?case by auto
next
  case (Suc n)
  show ?case
  proof (cases "filter (\<lambda>c. c \<notin> uc) src = []")
    case True
    with Suc.prems show ?thesis by auto
  next
    case False
    obtain c st' where p: "pick st (filter (\<lambda>c. c \<notin> uc) src) = (c, st')"
      by (cases "pick st (filter (\<lambda>c. c \<notin> uc) src)") auto
    have "c \<in> set (filter (\<lambda>c. c \<notin> uc) src)"
      using mem [OF False, of st] p by simp
    then have fresh: "c \<notin> set wc" using Suc.prems(3) by simp
    have run: "drawWordChars pick mark src n (wc @ [c]) (insert c uc) (mark st' c) = Inr (w, u, s)"
      using Suc.prems(1) False p by (simp add: selectWeightedCharacter_def)
    show ?thesis
      using Suc.IH [OF run] fresh Suc.prems(2,3) by simp
  qed
qed

lemma drawWordChars_length:
  "drawWordChars pick mark src n wc uc st = Inr (w, u, s) \<Longrightarrow> length w \<le> length wc + n"
proof (induction n arbitrary: wc uc st)
  case 0
  then show ?case by simp
next
  case (Suc n)
  show ?case
  proof (cases "filter (\<lambda>c. c \<notin> uc) src = []")
    case True
    with Suc.prems show ?thesis by simp
  next
    case False
    obtain c st' where p: "pick st (filter (\<lambda>c. c \<notin> uc) src) = (c, st')"
      by (cases "pick st (filter (\<lambda>c. c \<notin> uc) src)") auto
    have run: "drawWordChars pick mark src n (wc @ [c]) (insert c uc) (mark st' c) = Inr (w, u, s)"
      using Suc.prems(1) False p by (simp add: selectWeightedCharacter_def)
    show ?thesis
      using Suc.IH [OF run] by simp
  qed
qed

lemma randomInteger_range:
  "fst (randomInteger nextRaw rnd 0 m) \<le> m"
  by (simp add: randomInteger_def split: prod.splits)

lemma drawDistractors_length:
  "length (fst (drawDistractors nextRaw src used n ds rnd)) \<le> length ds + n"
proof (induction n arbitrary: ds rnd)
  case 0
  show ?case by simp
next
  case (Suc n)
  show ?case
  proof (cases "filter (\<lambda>c. Some c \<notin> used \<and> c \<notin> set ds) src = []")
    case True
    then show ?thesis by simp
  next
    case False
    obtain i rnd' where r: "randomInteger nextRaw rnd 0
        (length (filter (\<lambda>c. Some c \<notin> used \<and> c \<notin> set ds) src) - 1) = (i, rnd')"
      by (cases "randomInteger nextRaw rnd 0
        (length (filter (\<lambda>c. Some c \<notin> used \<and> c \<notin> set ds) src) - 1)") auto
    show ?thesis
      using False r Suc.IH [of "ds @ [filter (\<lambda>c. Some c \<notin> used \<and> c \<notin> set ds) src ! i]" rnd']
      by (simp add: Let_def)
  qed
qed

lemma drawDistractors_fresh:
  "distinct ds \<Longrightarrow> \<forall>d \<in> set ds. Some d \<notin> used \<Longrightarrow>
   distinct (fst (drawDistractors nextRaw src used n ds rnd)) \<and>
   (\<forall>d \<in> set (fst (drawDistractors nextRaw src used n ds rnd)). Some d \<notin> used \<and> (d \<in> set ds \<or> d \<in> set src))"
proof (induction n arbitrary: ds rnd)
  case 0
  then show ?case by simp
next
  case (Suc n)
  let ?av = "filter (\<lambda>c. Some c \<notin> used \<and> c \<notin> set ds) src"
  show ?case
  proof (cases "?av = []")
    case True
    with Suc.prems show ?thesis by simp
  next
    case False
    obtain i rnd' where r: "randomInteger nextRaw rnd 0 (length ?av - 1) = (i, rnd')"
      by (cases "randomInteger nextRaw rnd 0 (length ?av - 1)") auto
    have "i \<le> length ?av - 1"
      using randomInteger_range [of nextRaw rnd "length ?av - 1"] r by simp
    with False have "i < length ?av"
      by (cases ?av) auto
    then have "?av ! i \<in> set ?av" by (rule nth_mem)
    define x where "x = ?av ! i"
    have sel: "Some x \<notin> used" "x \<notin> set ds" "x \<in> set src"
      using \<open>?av ! i \<in> set ?av\<close> unfolding x_def by simp_all
    have d: "distinct (ds @ [x])" using Suc.prems(1) sel(2) by simp
    have u: "\<forall>d \<in> set (ds @ [x]). Some d \<notin> used" using Suc.prems(2) sel(1) by simp
    have step: "drawDistractors nextRaw src used (Suc n) ds rnd
                = drawDistractors nextRaw src used n (ds @ [x]) rnd'"
      using False r unfolding x_def by (simp add: Let_def)
    note ih = Suc.IH [OF d u, of rnd']
    have "Some e \<notin> used \<and> (e \<in> set ds \<or> e \<in> set src)"
      if "e \<in> set (fst (drawDistractors nextRaw src used n (ds @ [x]) rnd'))" for e
    proof -
      from ih that have "Some e \<notin> used" and "e \<in> set (ds @ [x]) \<or> e \<in> set src"
        by blast+
      with sel(3) show ?thesis by auto
    qed
    with ih show ?thesis
      unfolding step by blast
  qed
qed

section \<open>Properties of the generators and of the answer handlers\<close>

lemma selectWeightedCharacter_fails_iff:
  "selectWeightedCharacter pick st candidates = Inl e \<longleftrightarrow> candidates = []"
  by (cases e) (simp add: selectWeightedCharacter_def)

lemma generateWord_no_error:
  "\<exists>wd st' rnd'.
     generateWord pick mark nextRaw shuffle isReverse selectedKana selectedRomaji
       kanaToRomaji romajiToKana wordLength st rnd = Inr (wd, st', rnd')"
proof -
  obtain w u s where
    "drawWordChars pick mark (if isReverse then selectedRomaji else selectedKana)
       wordLength [] {} st = Inr (w, u, s)"
    using drawWordChars_no_error
            [of pick mark "if isReverse then selectedRomaji else selectedKana" wordLength "[]" "{}" st]
    by blast
  then show ?thesis
    by (simp add: generateWord_def Let_def split: prod.splits)
qed

lemma generateQuestion_no_error:
  "\<exists>qd st' rnd'.
     generateQuestion pick mark shuffle isReverse selectedKanjiObjs externalDistractorCount st rnd
       = Inr (qd, st', rnd')"
proof (cases "selectedKanjiObjs = []")
  case True
  then show ?thesis by (simp add: generateQuestion_def)
next
  case False
  then show ?thesis
    by (simp add: generateQuestion_def selectWeightedCharacter_def Let_def
          split: prod.splits option.splits)
qed

lemma handleCheck_reverseMode:
  "reverseMode (handleCheck upd decideNextMode recordWrongAnswer ext placedTiles wordData g) =
     (if placedTiles = [] \<or> ext \<noteq> None then reverseMode g
      else if placedTiles = answerChars wordData then decideNextMode (reverseMode g)
      else recordWrongAnswer (reverseMode g))"
  by (auto simp: handleCheck_def Let_def list_all2_eq [symmetric] dest: list_all2_lengthD)

lemma handleCheckKanji_reverseMode:
  "reverseMode (handleCheckKanji upd decideNextMode recordWrongAnswer ext placedTiles questionData g) =
     (if placedTiles = [] \<or> ext \<noteq> None then reverseMode g
      else if placedTiles = [correctAnswer questionData] then decideNextMode (reverseMode g)
      else recordWrongAnswer (reverseMode g))"
proof (cases placedTiles)
  case Nil
  then show ?thesis by (simp add: handleCheckKanji_def)
next
  case (Cons t ts)
  then show ?thesis by (auto simp: handleCheckKanji_def Let_def)
qed

lemma handleCheck_score:
  "score (handleCheck upd decideNextMode recordWrongAnswer ext placedTiles wordData g) =
     (if placedTiles = [] then score g
      else if placedTiles = answerChars wordData then score g + int (length (wordChars wordData))
      else if score g - 1 \<ge> 0 then score g - 1 else score g)"
  by (auto simp: handleCheck_def Let_def list_all2_eq [symmetric] dest: list_all2_lengthD)

lemma handleCheckKanji_score:
  "score (handleCheckKanji upd decideNextMode recordWrongAnswer ext placedTiles questionData g) =
     (if placedTiles = [] then score g
      else if placedTiles = [correctAnswer questionData] then score g + 1
      else if score g - 1 \<ge> 0 then score g - 1 else score g)"
proof (cases placedTiles)
  case Nil
  then show ?thesis by (simp add: handleCheckKanji_def)
next
  case (Cons t ts)
  then show ?thesis by (auto simp: handleCheckKanji_def Let_def)
qed

section \<open>Properties of the selector of the spec\<close>

lemma pickCumulative_mem:
  "pickCumulative cws t fallback \<in> insert fallback (fst ` set cws)"
  by (induction cws t fallback rule: pickCumulative.induct) auto

lemma pickCumulative_in:
  "fallback \<in> S \<Longrightarrow> fst ` set cws \<subseteq> S \<Longrightarrow> pickCumulative cws t fallback \<in> S"
  using pickCumulative_mem [of cws t fallback] by auto

lemma weightedPick_mem:
  assumes "candidates \<noteq> []"
  shows "fst (weightedPick cfg u st candidates) \<in> set candidates"
proof -
  define ws where "ws = map (weightOf cfg st) candidates"
  have "min (length candidates - 1) (nat \<lfloor>u * real (length candidates)\<rfloor>) < length candidates"
    using assms by (cases candidates) auto
  then have a: "candidates ! min (length candidates - 1) (nat \<lfloor>u * real (length candidates)\<rfloor>)
             \<in> set candidates"
    by (rule nth_mem)
  have z: "fst ` set (zip candidates ws) \<subseteq> set candidates"
    by (auto dest: set_zip_leftD)
  have l: "last candidates \<in> set candidates"
    using assms by simp
  have b: "pickCumulative (zip candidates ws) (u * sum_list ws) (last candidates) \<in> set candidates"
    using l z by (rule pickCumulative_in)
  show ?thesis
    using a b unfolding weightedPick_def Let_def ws_def by simp
qed

lemma weightOf_update:
  "weightOf cfg (updateCharacterWeight cfg st c wasCorrect) c =
     clampWeight cfg (if wasCorrect then weightOf cfg st c * decayFactor cfg
                      else applyBoost (boost cfg) (weightOf cfg st c))"
  by (simp add: weightOf_def updateCharacterWeight_def itemStat_def Let_def)

lemma clampWeight_bounds:
  "W_min cfg \<le> W_max cfg \<Longrightarrow> W_min cfg \<le> clampWeight cfg w \<and> clampWeight cfg w \<le> W_max cfg"
  by (simp add: clampWeight_def)

lemma validConfig_bounds: "validConfig cfg \<Longrightarrow> W_min cfg \<le> W_max cfg"
  by (simp add: validConfig_def)

lemma boost_increases:
  assumes "validConfig cfg" "W_min cfg \<le> w" "w \<le> W_max cfg"
  shows "w \<le> clampWeight cfg (applyBoost (boost cfg) w) \<and>
         (w < clampWeight cfg (applyBoost (boost cfg) w) \<or>
          clampWeight cfg (applyBoost (boost cfg) w) = W_max cfg)"
proof -
  have pos: "0 < w" using assms by (simp add: validConfig_def)
  have "w < applyBoost (boost cfg) w"
  proof (cases "boost cfg")
    case (Multiplicative k)
    with assms(1) have "1 < k" by (simp add: validConfig_def)
    with pos have "w * 1 < w * k" by (simp only: mult_strict_left_mono)
    with Multiplicative show ?thesis by simp
  next
    case (Additive d)
    with assms(1) have "0 < d" by (simp add: validConfig_def)
    with Additive show ?thesis by simp
  qed
  with assms show ?thesis
    by (auto simp: clampWeight_def max_def min_def)
qed

lemma decay_decreases:
  assumes "validConfig cfg" "W_min cfg \<le> w" "w \<le> W_max cfg"
  shows "clampWeight cfg (w * decayFactor cfg) \<le> w \<and>
         (clampWeight cfg (w * decayFactor cfg) < w \<or>
          clampWeight cfg (w * decayFactor cfg) = W_min cfg)"
proof -
  have pos: "0 < w" using assms by (simp add: validConfig_def)
  have "decayFactor cfg < 1" using assms(1) by (simp add: validConfig_def)
  with pos have "w * decayFactor cfg < w * 1" by (simp only: mult_strict_left_mono)
  then have "w * decayFactor cfg < w" by simp
  with assms show ?thesis
    by (auto simp: clampWeight_def max_def min_def)
qed

lemma repeatOutcome_Suc:
  "repeatOutcome cfg c b (Suc n) st = updateCharacterWeight cfg (repeatOutcome cfg c b n st) c b"
  by (simp add: repeatOutcome_def)

lemma repeatOutcome_bounds:
  assumes "validConfig cfg" "W_min cfg \<le> weightOf cfg st c" "weightOf cfg st c \<le> W_max cfg"
  shows "W_min cfg \<le> weightOf cfg (repeatOutcome cfg c b n st) c \<and>
         weightOf cfg (repeatOutcome cfg c b n st) c \<le> W_max cfg"
proof (cases n)
  case 0
  with assms show ?thesis by (simp add: repeatOutcome_def)
next
  case (Suc m)
  show ?thesis
    unfolding Suc repeatOutcome_Suc weightOf_update
    by (rule clampWeight_bounds) (rule validConfig_bounds [OF assms(1)])
qed

section \<open>The claims about mastery\<close>

text \<open>
  Claim C1, as the code has it.  For every identifier of the ledger whose counters are
  not negative and have \<open>correct + incorrect \<le> 3 * 10 ^ 15\<close>, both mastery computations
  (\<open>masteredCharacters\<close> of the Kanji grid, \<open>masteredWords\<close> of the Vocabulary grid) put
  the identifier into the mastered set if and only if \<open>correct + incorrect \<ge> 10\<close> and
  \<open>correct / (correct + incorrect) \<ge> 0.90\<close>, both bounds inclusive.  In particular
  \<open>{correct: 9, incorrect: 1}\<close> is mastered, while \<open>{correct: 8, incorrect: 1}\<close> and
  \<open>{correct: 89, incorrect: 11}\<close> are not.
\<close>

theorem mastered_iff_thresholds_in_range:
  "(distinct (map fst entries) \<longrightarrow> (c, stats) \<in> set entries \<longrightarrow>
    0 \<le> correct stats \<longrightarrow> 0 \<le> incorrect stats \<longrightarrow>
    correct stats + incorrect stats \<le> 3 * 10 ^ 15 \<longrightarrow>
      (c \<in> masteredCharacters entries \<longleftrightarrow>
         correct stats + incorrect stats \<ge> 10 \<and>
         real_of_int (correct stats) / real_of_int (correct stats + incorrect stats) \<ge> 0.90) \<and>
      (c \<in> masteredWords entries \<longleftrightarrow>
         correct stats + incorrect stats \<ge> 10 \<and>
         real_of_int (correct stats) / real_of_int (correct stats + incorrect stats) \<ge> 0.90)) \<and>
   masteredCharacters [(k, \<lparr>correct = 9, incorrect = 1\<rparr>)] = {k} \<and>
   masteredCharacters [(k, \<lparr>correct = 8, incorrect = 1\<rparr>)] = {} \<and>
   masteredCharacters [(k, \<lparr>correct = 89, incorrect = 11\<rparr>)] = {} \<and>
   masteredWords [(k, \<lparr>correct = 9, incorrect = 1\<rparr>)] = {k} \<and>
   masteredWords [(k, \<lparr>correct = 8, incorrect = 1\<rparr>)] = {} \<and>
   masteredWords [(k, \<lparr>correct = 89, incorrect = 11\<rparr>)] = {}"
proof -
  have general: "c \<in> masteredCharacters entries \<longleftrightarrow>
         correct stats + incorrect stats \<ge> 10 \<and>
         real_of_int (correct stats) / real_of_int (correct stats + incorrect stats) \<ge> 0.90"
       "c \<in> masteredWords entries \<longleftrightarrow>
         correct stats + incorrect stats \<ge> 10 \<and>
         real_of_int (correct stats) / real_of_int (correct stats + incorrect stats) \<ge> 0.90"
    if d: "distinct (map fst entries)" and m: "(c, stats) \<in> set entries"
      and r: "0 \<le> correct stats" "0 \<le> incorrect stats"
             "correct stats + incorrect stats \<le> 3 * 10 ^ 15"
  proof -
    have only: "\<And>s. (c, s) \<in> set entries \<Longrightarrow> s = stats"
      using distinct_keys_unique [OF d _ m] by blast
    have "(\<exists>s. (c, s) \<in> set entries \<and> meetsThreshold s) \<longleftrightarrow> meetsThreshold stats"
      using only m by blast
    then show
      "c \<in> masteredCharacters entries \<longleftrightarrow>
         correct stats + incorrect stats \<ge> 10 \<and>
         real_of_int (correct stats) / real_of_int (correct stats + incorrect stats) \<ge> 0.90"
      "c \<in> masteredWords entries \<longleftrightarrow>
         correct stats + incorrect stats \<ge> 10 \<and>
         real_of_int (correct stats) / real_of_int (correct stats + incorrect stats) \<ge> 0.90"
      by (simp_all add: masteredCharacters_mem masteredWords_mem meetsThreshold_iff [OF r])
  qed
  have examples:
    "meetsThreshold \<lparr>correct = 9, incorrect = 1\<rparr>"
    "\<not> meetsThreshold \<lparr>correct = 8, incorrect = 1\<rparr>"
    "\<not> meetsThreshold \<lparr>correct = 89, incorrect = 11\<rparr>"
    by (simp_all add: meetsThreshold_small)
  show ?thesis
    using general examples
    by (simp add: masteredCharacters_def masteredWords_def)
qed

theorem mastered_iff_thresholds_in_range_witness:
  "distinct (map fst [(''ka'', \<lparr>correct = 19, incorrect = 1\<rparr>),
                      (''ki'', \<lparr>correct = 5, incorrect = 5\<rparr>)]) \<and>
   (''ka'', \<lparr>correct = 19, incorrect = 1\<rparr>)
     \<in> set [(''ka'', \<lparr>correct = 19, incorrect = 1\<rparr>), (''ki'', \<lparr>correct = 5, incorrect = 5\<rparr>)] \<and>
   0 \<le> correct \<lparr>correct = 19, incorrect = 1\<rparr> \<and>
   0 \<le> incorrect \<lparr>correct = 19, incorrect = 1\<rparr> \<and>
   correct \<lparr>correct = 19, incorrect = 1\<rparr> + incorrect \<lparr>correct = 19, incorrect = 1\<rparr>
     \<le> 3 * 10 ^ 15 \<and>
   ''ka'' \<in> masteredCharacters [(''ka'', \<lparr>correct = 19, incorrect = 1\<rparr>),
                                (''ki'', \<lparr>correct = 5, incorrect = 5\<rparr>)] \<and>
   ''ka'' \<in> masteredWords [(''ka'', \<lparr>correct = 19, incorrect = 1\<rparr>),
                           (''ki'', \<lparr>correct = 5, incorrect = 5\<rparr>)]"
  using mastered_iff_thresholds_in_range
          [of "[(''ka'', \<lparr>correct = 19, incorrect = 1\<rparr>), (''ki'', \<lparr>correct = 5, incorrect = 5\<rparr>)]"
              "''ka''" "\<lparr>correct = 19, incorrect = 1\<rparr>"]
  by simp

text \<open>
  Claim C1 as stated, for all counters, fails on the code.  At
  \<open>{correct: 3600000000000008, incorrect: 400000000000001}\<close> ten times the correct
  answers are one less than nine times the attempts, so the quotient is below nine
  tenths; it lies so close to it that the binary64 division returns the number that the
  literal \<^verbatim>\<open>0.9\<close> denotes, and both grids classify the identifier as mastered.
\<close>

theorem mastered_iff_thresholds_counterexample:
  "''ka'' \<in> masteredCharacters
              [(''ka'', \<lparr>correct = 3600000000000008, incorrect = 400000000000001\<rparr>)] \<and>
   ''ka'' \<in> masteredWords
              [(''ka'', \<lparr>correct = 3600000000000008, incorrect = 400000000000001\<rparr>)] \<and>
   \<not> (real_of_int 3600000000000008 / real_of_int (3600000000000008 + 400000000000001)
        \<ge> 0.90)"
proof -
  have "meetsThreshold \<lparr>correct = 3600000000000008, incorrect = 400000000000001\<rparr>"
    by (simp add: meetsThreshold_exact)
  then show ?thesis
    by (simp add: masteredCharacters_def masteredWords_def)
qed



text \<open>
  Claim C3.  For counters with \<open>correct + incorrect = 0\<close> the quotient is not computed:
  the accuracy is 0, the thresholds are not met, and an identifier with these counters in
  the ledger is not in the mastered set of either grid.
\<close>

theorem zero_attempts_never_mastered:
  "correct stats + incorrect stats = 0 \<Longrightarrow>
     accuracy stats = 0 \<and> \<not> meetsThreshold stats \<and>
     (distinct (map fst entries) \<longrightarrow> (c, stats) \<in> set entries \<longrightarrow>
        c \<notin> masteredCharacters entries \<and> c \<notin> masteredWords entries)"
proof -
  assume z: "correct stats + incorrect stats = 0"
  have t: "total stats = 0"
    using z total_exact [of stats] by simp
  have a: "accuracy stats = 0"
    using t by (simp add: accuracy_def)
  have n: "\<not> meetsThreshold stats"
    using t by (simp add: meetsThreshold_def)
  have "c \<notin> masteredCharacters entries \<and> c \<notin> masteredWords entries"
    if d: "distinct (map fst entries)" and m: "(c, stats) \<in> set entries"
  proof -
    have "\<And>s. (c, s) \<in> set entries \<Longrightarrow> s = stats"
      using distinct_keys_unique [OF d _ m] by blast
    with n show ?thesis
      by (auto simp: masteredCharacters_mem masteredWords_mem)
  qed
  with a n show ?thesis by blast
qed

theorem zero_attempts_never_mastered_witness:
  "correct \<lparr>correct = 0, incorrect = 0\<rparr> + incorrect \<lparr>correct = 0, incorrect = 0\<rparr> = 0 \<and>
   accuracy \<lparr>correct = 0, incorrect = 0\<rparr> = 0 \<and>
   ''ka'' \<notin> masteredCharacters [(''ka'', \<lparr>correct = 0, incorrect = 0\<rparr>)] \<and>
   ''ka'' \<notin> masteredWords [(''ka'', \<lparr>correct = 0, incorrect = 0\<rparr>)]"
  using zero_attempts_never_mastered
          [of "\<lparr>correct = 0, incorrect = 0\<rparr>" "[(''ka'', \<lparr>correct = 0, incorrect = 0\<rparr>)]" "''ka''"]
  by simp

section \<open>The claims about the word-building games\<close>

text \<open>
  Claim C4.  Neither generator reaches the failure of the selector on an empty candidate
  list: \<open>generateWord\<close> of the Kana game and \<open>generateQuestion\<close> of the Kanji game return
  a result for every selector, every pool and every state.  A pool shorter than the word
  length gives the empty word, and an empty list of kanji gives the empty question, both
  without a call of the selector.
\<close>

theorem selector_candidates_never_empty:
  "(selectWeightedCharacter pick st candidates = Inl InvalidArgument \<longleftrightarrow> candidates = []) \<and>
   generateWord pick mark nextRaw shuffle isReverse selectedKana selectedRomaji
     kanaToRomaji romajiToKana wordLength st rnd \<noteq> Inl e \<and>
   generateQuestion pick mark shuffle isReverse selectedKanjiObjs externalDistractorCount st rnd'
     \<noteq> Inl e \<and>
   (length (if isReverse then selectedRomaji else selectedKana) < wordLength \<longrightarrow>
      generateWord pick mark nextRaw shuffle isReverse selectedKana selectedRomaji
        kanaToRomaji romajiToKana wordLength st rnd
      = Inr (\<lparr>wordChars = [], answerChars = [], distractors = [], allTiles = []\<rparr>, st, rnd)) \<and>
   (length selectedKanjiObjs = 0 \<longrightarrow>
      generateQuestion pick mark shuffle isReverse selectedKanjiObjs externalDistractorCount st rnd'
      = Inr (\<lparr>questionKanjiChar = [], correctAnswer = Some [], questionTiles = [],
               displayChar = None\<rparr>, st, rnd'))"
proof -
  have a: "selectWeightedCharacter pick st candidates = Inl InvalidArgument \<longleftrightarrow> candidates = []"
    by (rule selectWeightedCharacter_fails_iff)
  have b: "generateWord pick mark nextRaw shuffle isReverse selectedKana selectedRomaji
     kanaToRomaji romajiToKana wordLength st rnd \<noteq> Inl e"
    using generateWord_no_error [of pick mark nextRaw shuffle isReverse selectedKana selectedRomaji
      kanaToRomaji romajiToKana wordLength st rnd] by auto
  have c: "generateQuestion pick mark shuffle isReverse selectedKanjiObjs externalDistractorCount
     st rnd' \<noteq> Inl e"
    using generateQuestion_no_error [of pick mark shuffle isReverse selectedKanjiObjs
       externalDistractorCount st rnd'] by auto
  have d: "length (if isReverse then selectedRomaji else selectedKana) < wordLength \<longrightarrow>
      generateWord pick mark nextRaw shuffle isReverse selectedKana selectedRomaji
        kanaToRomaji romajiToKana wordLength st rnd
      = Inr (\<lparr>wordChars = [], answerChars = [], distractors = [], allTiles = []\<rparr>, st, rnd)"
    by (simp add: generateWord_def)
  have e: "length selectedKanjiObjs = 0 \<longrightarrow>
      generateQuestion pick mark shuffle isReverse selectedKanjiObjs externalDistractorCount st rnd'
      = Inr (\<lparr>questionKanjiChar = [], correctAnswer = Some [], questionTiles = [],
               displayChar = None\<rparr>, st, rnd')"
    by (simp add: generateQuestion_def)
  from a b c d e show ?thesis by blast
qed

theorem selector_candidates_never_empty_witness:
  "length (if False then [''ka''] else [''a'', ''i'']) < 3 \<and>
   generateWord (\<lambda>st xs. (hd xs, st)) (\<lambda>st c. st) (\<lambda>r. (r, Suc r)) (\<lambda>r xs. (xs, r))
     False [''a'', ''i''] [''ka''] Map.empty Map.empty 3 () (0::nat)
   = Inr (\<lparr>wordChars = [], answerChars = [], distractors = [], allTiles = []\<rparr>, (), 0) \<and>
   length ([] :: KanjiObj list) = 0 \<and>
   generateQuestion (\<lambda>st xs. (hd xs, st)) (\<lambda>st c. st) (\<lambda>r xs. (xs, r)) False [] 3 () (0::nat)
   = Inr (\<lparr>questionKanjiChar = [], correctAnswer = Some [], questionTiles = [],
            displayChar = None\<rparr>, (), 0)"
  using selector_candidates_never_empty
          [of "\<lambda>st xs. (hd xs, st)" "()" "[]" "\<lambda>st c. st" "\<lambda>r. (r, Suc r)" "\<lambda>r xs. (xs, r)"
              False "[''a'', ''i'']" "[''ka'']" Map.empty Map.empty 3 "0::nat" InvalidArgument
              "[]" 3 "0::nat"]
  by simp

text \<open>
  Claim C5.  If the selector returns a member of every non-empty list it is given, then
  \<open>generateWord\<close> returns a word whose characters are pairwise distinct.
\<close>

theorem generateWord_wordChars_distinct:
  assumes "\<And>st xs. xs \<noteq> [] \<Longrightarrow> fst (pick st xs) \<in> set xs"
  shows "\<exists>wd st' rnd'.
           generateWord pick mark nextRaw shuffle isReverse selectedKana selectedRomaji
             kanaToRomaji romajiToKana wordLength st rnd = Inr (wd, st', rnd') \<and>
           distinct (wordChars wd)"
proof -
  let ?src = "if isReverse then selectedRomaji else selectedKana"
  obtain w u s where run: "drawWordChars pick mark ?src wordLength [] {} st = Inr (w, u, s)"
    using drawWordChars_no_error [of pick mark ?src wordLength "[]" "{}" st] by blast
  have "distinct w"
    using drawWordChars_distinct [OF assms run] by simp
  with run show ?thesis
    by (simp add: generateWord_def Let_def split: prod.splits)
qed

theorem generateWord_wordChars_distinct_witness:
  "\<exists>wd st' rnd'.
      generateWord (\<lambda>st xs. (last xs, st)) (\<lambda>st c. st) (\<lambda>r. (r, Suc r)) (\<lambda>r xs. (xs, r))
        False [''a'', ''i'', ''u''] [''ra'', ''ri'', ''ru''] [''a'' \<mapsto> ''ra''] Map.empty 2 () (0::nat)
      = Inr (wd, st', rnd') \<and> distinct (wordChars wd)"
proof -
  have h: "\<And>(st::unit) (xs::string list). xs \<noteq> [] \<Longrightarrow> fst (last xs, st) \<in> set xs"
    by simp
  show ?thesis
    using generateWord_wordChars_distinct
            [of "\<lambda>st xs. (last xs, st)" "\<lambda>st c. st" "\<lambda>r. (r, Suc r)" "\<lambda>r xs. (xs, r)"
                False "[''a'', ''i'', ''u'']" "[''ra'', ''ri'', ''ru'']" "[''a'' \<mapsto> ''ra'']"
                Map.empty 2 "()" "0::nat", OF h]
    by simp
qed

text \<open>
  Claim C6.  For every non-empty candidate pool, the selector of the spec returns an
  identifier that is a member of the pool, whatever the weights and the random draw.
\<close>

theorem selectWeightedCharacter_member:
  "candidates \<noteq> [] \<Longrightarrow>
     \<exists>c st'. selectWeightedCharacter (weightedPick cfg u) st candidates = Inr (c, st') \<and>
             c \<in> set candidates"
  using weightedPick_mem [of candidates cfg u st]
  by (cases "weightedPick cfg u st candidates") (simp add: selectWeightedCharacter_def)

theorem selectWeightedCharacter_member_witness:
  "[''a'', ''b'', ''c''] \<noteq> [] \<and>
   selectWeightedCharacter (weightedPick exampleConfig (1/2)) \<lparr>items = Map.empty, clock = 0\<rparr>
      [''a'', ''b'', ''c''] = Inr (''b'', \<lparr>items = Map.empty, clock = 0\<rparr>)"
  using selectWeightedCharacter_member
          [of "[''a'', ''b'', ''c'']" exampleConfig "1/2" "\<lparr>items = Map.empty, clock = 0\<rparr>"]
  by (simp add: selectWeightedCharacter_def weightedPick_def weightOf_def itemStat_def
        exampleConfig_def)

text \<open>
  Claim C7.  For an item whose weight is within \<open>[W_min, W_max]\<close>, every further call
  of \<open>updateCharacterWeight\<close> with an incorrect outcome increases the weight strictly or
  leaves it at \<open>W_max\<close>, every further call with a correct outcome decreases it strictly
  or leaves it at \<open>W_min\<close>, and after any number of calls the weight is within
  \<open>[W_min, W_max]\<close>.
\<close>

theorem updateCharacterWeight_monotone:
  assumes "validConfig cfg"
      and "W_min cfg \<le> weightOf cfg st c" and "weightOf cfg st c \<le> W_max cfg"
  shows "weightOf cfg (repeatOutcome cfg c False n st) c
           \<le> weightOf cfg (repeatOutcome cfg c False (Suc n) st) c \<and>
         (weightOf cfg (repeatOutcome cfg c False n st) c
            < weightOf cfg (repeatOutcome cfg c False (Suc n) st) c \<or>
          weightOf cfg (repeatOutcome cfg c False (Suc n) st) c = W_max cfg) \<and>
         weightOf cfg (repeatOutcome cfg c True (Suc n) st) c
           \<le> weightOf cfg (repeatOutcome cfg c True n st) c \<and>
         (weightOf cfg (repeatOutcome cfg c True (Suc n) st) c
            < weightOf cfg (repeatOutcome cfg c True n st) c \<or>
          weightOf cfg (repeatOutcome cfg c True (Suc n) st) c = W_min cfg) \<and>
         W_min cfg \<le> weightOf cfg (repeatOutcome cfg c wasCorrect n st) c \<and>
         weightOf cfg (repeatOutcome cfg c wasCorrect n st) c \<le> W_max cfg"
proof -
  note b = repeatOutcome_bounds [OF assms]
  have up: "weightOf cfg (repeatOutcome cfg c False n st) c
           \<le> weightOf cfg (repeatOutcome cfg c False (Suc n) st) c \<and>
         (weightOf cfg (repeatOutcome cfg c False n st) c
            < weightOf cfg (repeatOutcome cfg c False (Suc n) st) c \<or>
          weightOf cfg (repeatOutcome cfg c False (Suc n) st) c = W_max cfg)"
    unfolding repeatOutcome_Suc weightOf_update
    using boost_increases [OF assms(1), of "weightOf cfg (repeatOutcome cfg c False n st) c"]
          b [of False n]
    by simp
  have down: "weightOf cfg (repeatOutcome cfg c True (Suc n) st) c
           \<le> weightOf cfg (repeatOutcome cfg c True n st) c \<and>
         (weightOf cfg (repeatOutcome cfg c True (Suc n) st) c
            < weightOf cfg (repeatOutcome cfg c True n st) c \<or>
          weightOf cfg (repeatOutcome cfg c True (Suc n) st) c = W_min cfg)"
    unfolding repeatOutcome_Suc weightOf_update
    using decay_decreases [OF assms(1), of "weightOf cfg (repeatOutcome cfg c True n st) c"]
          b [of True n]
    by simp
  from up down b [of wasCorrect n] show ?thesis by blast
qed

theorem updateCharacterWeight_monotone_witness:
  "validConfig exampleConfig \<and>
   W_min exampleConfig \<le> weightOf exampleConfig \<lparr>items = Map.empty, clock = 0\<rparr> ''a'' \<and>
   weightOf exampleConfig \<lparr>items = Map.empty, clock = 0\<rparr> ''a'' \<le> W_max exampleConfig \<and>
   weightOf exampleConfig (repeatOutcome exampleConfig ''a'' False 2 \<lparr>items = Map.empty, clock = 0\<rparr>) ''a''
     \<le> weightOf exampleConfig
         (repeatOutcome exampleConfig ''a'' False (Suc 2) \<lparr>items = Map.empty, clock = 0\<rparr>) ''a'' \<and>
   weightOf exampleConfig
       (repeatOutcome exampleConfig ''a'' True (Suc 2) \<lparr>items = Map.empty, clock = 0\<rparr>) ''a''
     \<le> weightOf exampleConfig
         (repeatOutcome exampleConfig ''a'' True 2 \<lparr>items = Map.empty, clock = 0\<rparr>) ''a''"
proof -
  have v: "validConfig exampleConfig"
    by (simp add: validConfig_def exampleConfig_def)
  have lo: "W_min exampleConfig \<le> weightOf exampleConfig \<lparr>items = Map.empty, clock = 0\<rparr> ''a''"
    by (simp add: weightOf_def itemStat_def exampleConfig_def)
  have hi: "weightOf exampleConfig \<lparr>items = Map.empty, clock = 0\<rparr> ''a'' \<le> W_max exampleConfig"
    by (simp add: weightOf_def itemStat_def exampleConfig_def)
  show ?thesis
    using v lo hi updateCharacterWeight_monotone [OF v lo hi, of 2 True]
    by blast
qed

text \<open>
  Claim C8.  With an external direction supplied (\<open>isReverse\<close> defined), the game uses
  that direction, and handling an answer leaves the state of the direction controller as
  it was, in the Kana and in the Kanji game, whatever the two transitions of the
  controller do.  Without an external direction the game uses the controller's direction,
  and handling an answer applies \<open>decideNextMode\<close> on a correct and \<open>recordWrongAnswer\<close>
  on a wrong answer.
\<close>

theorem external_direction_disables_controller:
  "effectiveIsReverse (Some b) internalIsReverse = b \<and>
   reverseMode (handleCheck upd decideNextMode recordWrongAnswer (Some b) placedTiles wordData g)
     = reverseMode g \<and>
   reverseMode (handleCheckKanji upd decideNextMode recordWrongAnswer (Some b) placedTiles
                  questionData g)
     = reverseMode g \<and>
   effectiveIsReverse None internalIsReverse = internalIsReverse \<and>
   (placedTiles \<noteq> [] \<longrightarrow>
      reverseMode (handleCheck upd decideNextMode recordWrongAnswer None placedTiles wordData g)
        = (if placedTiles = answerChars wordData then decideNextMode (reverseMode g)
           else recordWrongAnswer (reverseMode g)) \<and>
      reverseMode (handleCheckKanji upd decideNextMode recordWrongAnswer None placedTiles
                     questionData g)
        = (if placedTiles = [correctAnswer questionData] then decideNextMode (reverseMode g)
           else recordWrongAnswer (reverseMode g)))"
  by (simp add: effectiveIsReverse_def handleCheck_reverseMode handleCheckKanji_reverseMode)

theorem external_direction_disables_controller_witness:
  "[Some ''ka''] \<noteq> [] \<and>
   reverseMode (handleCheck (\<lambda>st c b. st) (\<lambda>n. n + 1) (\<lambda>n. 0) None [Some ''ka'']
      \<lparr>wordChars = [''a''], answerChars = [Some ''ka''], distractors = [], allTiles = [Some ''ka'']\<rparr>
      \<lparr>score = 0, bottomBarState = Check, isChecking = False, isCelebrating = False,
        selector = (), reverseMode = (1::nat)\<rparr>) = 2 \<and>
   reverseMode (handleCheckKanji (\<lambda>st c b. st) (\<lambda>n. n + 1) (\<lambda>n. 0) None [Some ''ka'']
      \<lparr>questionKanjiChar = ''x'', correctAnswer = Some ''fire'', questionTiles = [Some ''fire''],
        displayChar = Some ''x''\<rparr>
      \<lparr>score = 0, bottomBarState = Check, isChecking = False, isCelebrating = False,
        selector = (), reverseMode = (1::nat)\<rparr>) = 0 \<and>
   reverseMode (handleCheck (\<lambda>st c b. st) (\<lambda>n. n + 1) (\<lambda>n. 0) (Some True) [Some ''ka'']
      \<lparr>wordChars = [''a''], answerChars = [Some ''ka''], distractors = [], allTiles = [Some ''ka'']\<rparr>
      \<lparr>score = 0, bottomBarState = Check, isChecking = False, isCelebrating = False,
        selector = (), reverseMode = (1::nat)\<rparr>) = 1"
  using external_direction_disables_controller
          [of True False "\<lambda>st c b. st" "\<lambda>n. n + 1" "\<lambda>n. 0" "[Some ''ka'']"
              "\<lparr>wordChars = [''a''], answerChars = [Some ''ka''], distractors = [],
                allTiles = [Some ''ka'']\<rparr>"
              "\<lparr>score = 0, bottomBarState = Check, isChecking = False, isCelebrating = False,
                selector = (), reverseMode = (1::nat)\<rparr>"
              "\<lparr>questionKanjiChar = ''x'', correctAnswer = Some ''fire'',
                questionTiles = [Some ''fire''], displayChar = Some ''x''\<rparr>"]
  by simp

text \<open>
  Claim C9.  For a source pool of \<open>n\<close> characters and a word length \<open>L \<le> n\<close>,
  \<open>generateWord\<close> returns a result (never an error) whose distractor list has at most
  \<open>min(3, n - L)\<close> elements, pairwise distinct, none of them among the answer characters,
  all of them taken from the distractor source.
\<close>

theorem generateWord_distractors_bounded_distinct:
  assumes "wordLength \<le> length (if isReverse then selectedRomaji else selectedKana)"
  shows "\<exists>wd st' rnd'.
           generateWord pick mark nextRaw shuffle isReverse selectedKana selectedRomaji
             kanaToRomaji romajiToKana wordLength st rnd = Inr (wd, st', rnd') \<and>
           length (distractors wd)
             \<le> min 3 (length (if isReverse then selectedRomaji else selectedKana) - wordLength) \<and>
           distinct (distractors wd) \<and>
           Some ` set (distractors wd) \<inter> set (answerChars wd) = {} \<and>
           set (distractors wd) \<subseteq> set (if isReverse then selectedKana else selectedRomaji)"
proof -
  let ?src = "if isReverse then selectedRomaji else selectedKana"
  let ?dsrc = "if isReverse then selectedKana else selectedRomaji"
  obtain w u s where run: "drawWordChars pick mark ?src wordLength [] {} st = Inr (w, u, s)"
    using drawWordChars_no_error [of pick mark ?src wordLength "[]" "{}" st] by blast
  define ans where "ans = (if isReverse then map romajiToKana w else map kanaToRomaji w)"
  define k where "k = min 3 (length ?src - wordLength)"
  obtain ds r1 where dd: "drawDistractors nextRaw ?dsrc (set ans) k [] rnd = (ds, r1)"
    by (cases "drawDistractors nextRaw ?dsrc (set ans) k [] rnd") auto
  obtain tiles r2 where sh: "shuffle r1 (ans @ map Some ds) = (tiles, r2)"
    by (cases "shuffle r1 (ans @ map Some ds)") auto
  have gw: "generateWord pick mark nextRaw shuffle isReverse selectedKana selectedRomaji
             kanaToRomaji romajiToKana wordLength st rnd
            = Inr (\<lparr>wordChars = w, answerChars = ans, distractors = ds, allTiles = tiles\<rparr>, s, r2)"
    using assms run dd sh unfolding generateWord_def Let_def ans_def k_def
    by (simp split: if_splits)
  have len: "length ds \<le> k"
    using drawDistractors_length [of nextRaw ?dsrc "set ans" k "[]" rnd] dd by simp
  have fr: "distinct ds \<and> (\<forall>d \<in> set ds. Some d \<notin> set ans \<and> (d \<in> set [] \<or> d \<in> set ?dsrc))"
    using drawDistractors_fresh [of "[]" "set ans" nextRaw ?dsrc k rnd] dd by simp
  have "Some ` set ds \<inter> set ans = {}" "set ds \<subseteq> set ?dsrc"
    using fr by auto
  with gw len fr show ?thesis
    unfolding k_def by simp
qed

theorem generateWord_distractors_bounded_distinct_witness:
  "(2::nat) \<le> length (if False then [''ra'', ''ri'', ''ru''] else [''a'', ''i'', ''u'']) \<and>
   (\<exists>wd st' rnd'.
      generateWord (\<lambda>st xs. (hd xs, st)) (\<lambda>st c. st) (\<lambda>r. (r, Suc r)) (\<lambda>r xs. (xs, r))
        False [''a'', ''i'', ''u''] [''ra'', ''ri'', ''ru'']
        [''a'' \<mapsto> ''ra'', ''i'' \<mapsto> ''ri'', ''u'' \<mapsto> ''ru''] Map.empty 2 () (0::nat)
      = Inr (wd, st', rnd') \<and>
      length (distractors wd)
        \<le> min 3 (length (if False then [''ra'', ''ri'', ''ru''] else [''a'', ''i'', ''u'']) - 2) \<and>
      distinct (distractors wd) \<and>
      Some ` set (distractors wd) \<inter> set (answerChars wd) = {} \<and>
      set (distractors wd) \<subseteq> set (if False then [''a'', ''i'', ''u''] else [''ra'', ''ri'', ''ru'']))"
  using generateWord_distractors_bounded_distinct
          [of 2 False "[''ra'', ''ri'', ''ru'']" "[''a'', ''i'', ''u'']"
              "\<lambda>st xs. (hd xs, st)" "\<lambda>st c. st" "\<lambda>r. (r, Suc r)" "\<lambda>r xs. (xs, r)"
              "[''a'' \<mapsto> ''ra'', ''i'' \<mapsto> ''ri'', ''u'' \<mapsto> ''ru'']" Map.empty "()" "0::nat"]
  by simp

text \<open>
  Claim C10.  A score that is not negative stays so under \<open>handleCheck\<close> of both games:
  a wrong answer takes one point off only if the result is not negative and leaves the
  score alone otherwise; a correct answer adds points; without placed tiles nothing
  happens.
\<close>

theorem score_never_negative:
  "0 \<le> score g \<Longrightarrow>
     0 \<le> score (handleCheck upd decideNextMode recordWrongAnswer ext placedTiles wordData g) \<and>
     0 \<le> score (handleCheckKanji upd decideNextMode recordWrongAnswer ext placedTiles
                   questionData g) \<and>
     (placedTiles \<noteq> [] \<longrightarrow> placedTiles \<noteq> answerChars wordData \<longrightarrow>
        score (handleCheck upd decideNextMode recordWrongAnswer ext placedTiles wordData g)
          = (if score g - 1 \<ge> 0 then score g - 1 else score g)) \<and>
     (placedTiles \<noteq> [] \<longrightarrow> placedTiles \<noteq> [correctAnswer questionData] \<longrightarrow>
        score (handleCheckKanji upd decideNextMode recordWrongAnswer ext placedTiles
                 questionData g)
          = (if score g - 1 \<ge> 0 then score g - 1 else score g))"
  by (simp add: handleCheck_score handleCheckKanji_score)

theorem score_never_negative_witness:
  "(0::int) \<le> score \<lparr>score = 0, bottomBarState = Check, isChecking = False,
                       isCelebrating = False, selector = (), reverseMode = (1::nat)\<rparr> \<and>
   [Some ''ki''] \<noteq> [] \<and> [Some ''ki''] \<noteq> [Some ''ka''] \<and> [Some ''ki''] \<noteq> [Some ''fire''] \<and>
   score (handleCheck (\<lambda>st c b. st) (\<lambda>n. n + 1) (\<lambda>n. 0) None [Some ''ki'']
      \<lparr>wordChars = [''a''], answerChars = [Some ''ka''], distractors = [], allTiles = [Some ''ka'']\<rparr>
      \<lparr>score = 0, bottomBarState = Check, isChecking = False, isCelebrating = False,
        selector = (), reverseMode = (1::nat)\<rparr>) = 0 \<and>
   score (handleCheckKanji (\<lambda>st c b. st) (\<lambda>n. n + 1) (\<lambda>n. 0) None [Some ''ki'']
      \<lparr>questionKanjiChar = ''x'', correctAnswer = Some ''fire'', questionTiles = [Some ''fire''],
        displayChar = Some ''x''\<rparr>
      \<lparr>score = 0, bottomBarState = Check, isChecking = False, isCelebrating = False,
        selector = (), reverseMode = (1::nat)\<rparr>) = 0"
  using score_never_negative
          [of "\<lparr>score = 0, bottomBarState = Check, isChecking = False, isCelebrating = False,
                selector = (), reverseMode = (1::nat)\<rparr>"
              "\<lambda>st c b. st" "\<lambda>n. n + 1" "\<lambda>n. 0" None "[Some ''ki'']"
              "\<lparr>wordChars = [''a''], answerChars = [Some ''ka''], distractors = [],
                allTiles = [Some ''ka'']\<rparr>"
              "\<lparr>questionKanjiChar = ''x'', correctAnswer = Some ''fire'',
                questionTiles = [Some ''fire''], displayChar = Some ''x''\<rparr>"]
  by simp

end
